theory Spec2Isabelle
  imports Main "HOL-Library.Sublist"
begin

section \<open>Python string primitives used by the hooks\<close>

text \<open>
  The two hooks (\<^verbatim>\<open>overlayable_hook.py\<close> and \<^verbatim>\<open>wifi_upload_hook.py\<close>) work on Python
  \<^verbatim>\<open>str\<close> values (the commit message and the changed paths) and on the \<^verbatim>\<open>bytes\<close> printed by
  \<^verbatim>\<open>git branch -vv\<close>. Both are modelled as \<^typ>\<open>string\<close>: a \<^typ>\<open>char\<close> is a code point
  below 256 for \<^verbatim>\<open>str\<close> and a byte for \<^verbatim>\<open>bytes\<close>. The \<^verbatim>\<open>str\<close> methods below are the
  Python 3 ones restricted to that range; code points from 256 on are outside the model.
\<close>

text \<open>\<^verbatim>\<open>str.isspace\<close> of one character: the characters \<^verbatim>\<open>str.strip()\<close> removes.\<close>

definition py_isspace :: "char \<Rightarrow> bool" where
  "py_isspace c = (of_char c \<in> {9, 10, 11, 12, 13, 28, 29, 30, 31, 32, 133, 160 :: nat})"

text \<open>The line boundaries of \<^verbatim>\<open>str.splitlines()\<close> and of \<^verbatim>\<open>bytes.splitlines()\<close>.\<close>

definition str_linebreak :: "char \<Rightarrow> bool" where
  "str_linebreak c = (of_char c \<in> {10, 11, 12, 13, 28, 29, 30, 133 :: nat})"

definition bytes_linebreak :: "char \<Rightarrow> bool" where
  "bytes_linebreak c = (of_char c \<in> {10, 13 :: nat})"

text \<open>
  \<^verbatim>\<open>splitlines\<close> without \<^verbatim>\<open>keepends\<close>: \<open>cur\<close> is the current line, reversed. A carriage
  return followed by a line feed is one boundary, and a boundary at the very end adds no
  empty last line.
\<close>

fun splitlines_from :: "(char \<Rightarrow> bool) \<Rightarrow> string \<Rightarrow> string \<Rightarrow> string list" where
  "splitlines_from brk cur [] = (if cur = [] then [] else [rev cur])"
| "splitlines_from brk cur (c # cs) =
     (if brk c then
        rev cur #
          (case cs of
             [] \<Rightarrow> splitlines_from brk [] []
           | d # ds \<Rightarrow>
               if c = CHR 0x0D \<and> d = CHR 0x0A then splitlines_from brk [] ds
               else splitlines_from brk [] (d # ds))
      else splitlines_from brk (c # cur) cs)"

definition str_splitlines :: "string \<Rightarrow> string list" where
  "str_splitlines s = splitlines_from str_linebreak [] s"

definition bytes_splitlines :: "string \<Rightarrow> string list" where
  "bytes_splitlines s = splitlines_from bytes_linebreak [] s"

text \<open>\<^verbatim>\<open>str.strip()\<close> with no argument.\<close>

definition py_strip :: "string \<Rightarrow> string" where
  "py_strip s = rev (dropWhile py_isspace (rev (dropWhile py_isspace s)))"

text \<open>
  \<^verbatim>\<open>str.lower()\<close>: below 256 the upper-case letters are A to Z and the Latin-1 letters
  0xC0 to 0xDE without the multiplication sign 0xD7; each maps to the code point 32 above.
\<close>

definition py_lower_char :: "char \<Rightarrow> char" where
  "py_lower_char c =
     (let n = (of_char c :: nat) in
      if (65 \<le> n \<and> n \<le> 90) \<or> (192 \<le> n \<and> n \<le> 222 \<and> n \<noteq> 215)
      then char_of (n + 32) else c)"

definition py_lower :: "string \<Rightarrow> string" where
  "py_lower s = map py_lower_char s"

text \<open>\<^verbatim>\<open>s.startswith(p)\<close>, for \<^verbatim>\<open>str\<close> and \<^verbatim>\<open>bytes\<close> alike.\<close>

fun startswith :: "string \<Rightarrow> string \<Rightarrow> bool" where
  "startswith s [] = True"
| "startswith [] (p # ps) = False"
| "startswith (c # cs) (p # ps) = (c = p \<and> startswith cs ps)"

text \<open>\<^verbatim>\<open>needle in hay\<close> on \<^verbatim>\<open>bytes\<close>: \<open>needle\<close> occurs as a contiguous slice.\<close>

fun bytes_contains :: "string \<Rightarrow> string \<Rightarrow> bool" where
  "bytes_contains needle [] = (needle = [])"
| "bytes_contains needle (c # cs) = (startswith (c # cs) needle \<or> bytes_contains needle cs)"

section \<open>Functions shared by both hooks\<close>

text \<open>
  \<^verbatim>\<open>is_commit_msg_valid\<close> (the same text in both files): the loop over the lines returns
  at the first line that, stripped and lower-cased, starts with \<^verbatim>\<open>updated-overlayable\<close>.
\<close>

fun is_commit_msg_valid_loop :: "string list \<Rightarrow> bool" where
  "is_commit_msg_valid_loop [] = False"
| "is_commit_msg_valid_loop (line # rest) =
     (if startswith (py_lower (py_strip line)) ''updated-overlayable'' then True
      else is_commit_msg_valid_loop rest)"

definition is_commit_msg_valid :: "string \<Rightarrow> bool" where
  "is_commit_msg_valid commit_msg = is_commit_msg_valid_loop (str_splitlines commit_msg)"

text \<open>
  \<^verbatim>\<open>is_in_aosp\<close> (the same text in both files). The argument is what
  \<^verbatim>\<open>subprocess.check_output(['git', 'branch', '-vv'])\<close> returned; a failing \<^verbatim>\<open>git\<close> raises
  before any decision is taken and is not part of the model. The current branch is the
  first line starting with an asterisk; with no such line the hook assumes AOSP.
\<close>

fun is_in_aosp_loop :: "string list \<Rightarrow> bool" where
  "is_in_aosp_loop [] = True"
| "is_in_aosp_loop (branch # branches) =
     (if startswith branch ''*'' then bytes_contains ''[aosp/'' branch
      else is_in_aosp_loop branches)"

definition is_in_aosp :: "string \<Rightarrow> bool" where
  "is_in_aosp git_branch_vv = is_in_aosp_loop (bytes_splitlines git_branch_vv)"

text \<open>The double quote printed around file names.\<close>

definition dquote :: char where
  "dquote = CHR 0x22"

text \<open>
  The lines the hooks print, one list element for each \<^verbatim>\<open>print\<close> call: the
  acknowledgment guidance (printed by both hooks) and the bug-id guidance (printed by
  \<^verbatim>\<open>wifi_upload_hook.py\<close> only).
\<close>

definition overlayable_guidance :: "string \<Rightarrow> string \<Rightarrow> string list" where
  "overlayable_guidance changed_file overlay_file =
     [''This commit has changed: '' @ [dquote] @ changed_file @ [dquote] @ ''.'',
      '''',
      ''If this change added/changed/removed overlayable resources used by the Wifi Module, '',
      ''please update the '' @ [dquote] @ overlay_file @ [dquote] @ ''.'',
      ''and acknowledge you have done so by adding this line to your commit message:'',
      '''',
      ''Updated-Overlayable: TRUE'',
      '''',
      ''Otherwise, please explain why the Overlayable does not need to be updated:'',
      '''',
      ''Updated-Overlayable: Not applicable - changing default value'',
      '''']"

definition translation_guidance :: "string \<Rightarrow> string list" where
  "translation_guidance changed_file =
     [''This commit has changed: '' @ [dquote] @ changed_file @ [dquote] @ ''.'',
      '''',
      ''Please add the following line to your commit message'',
      '''',
      ''Bug: 294871353'',
      '''']"

section \<open>The hook of \<^verbatim>\<open>overlayable_hook.py\<close>\<close>

fun ov_get_changed_resource_file :: "string \<Rightarrow> string list \<Rightarrow> string option" where
  "ov_get_changed_resource_file base_dir [] = None"
| "ov_get_changed_resource_file base_dir (commit_file # commit_files) =
     (if commit_file = base_dir @ ''values/config.xml'' then Some commit_file
      else if commit_file = base_dir @ ''values/strings.xml'' then Some commit_file
      else if commit_file = base_dir @ ''values/styles.xml'' then Some commit_file
      else if startswith commit_file (base_dir @ ''drawable/'') then Some commit_file
      else if startswith commit_file (base_dir @ ''layout/'') then Some commit_file
      else ov_get_changed_resource_file base_dir commit_files)"

text \<open>
  \<^verbatim>\<open>main\<close> returns the exit code, which \<^verbatim>\<open>sys.exit\<close> hands to the process; the second
  component is what it printed. \<^verbatim>\<open>not changed_file\<close> holds for \<^verbatim>\<open>None\<close> and for the empty
  string.
\<close>

definition ov_main :: "string \<Rightarrow> string \<Rightarrow> string list \<Rightarrow> int \<times> string list" where
  "ov_main git_branch_vv commit_msg commit_files =
     (let base_dir = ''service/ServiceWifiResources/res/'';
          overlay_file = base_dir @ ''values/overlayable.xml''
      in
      if is_in_aosp git_branch_vv then (0, [])
      else
        (case ov_get_changed_resource_file base_dir commit_files of
           None \<Rightarrow> (0, [])
         | Some changed_file \<Rightarrow>
             if changed_file = [] then (0, [])
             else if is_commit_msg_valid commit_msg then (0, [])
             else (1, overlayable_guidance changed_file overlay_file)))"

section \<open>The hook of \<^verbatim>\<open>wifi_upload_hook.py\<close>\<close>

definition BASE_DIR :: string where
  "BASE_DIR = ''service/ServiceWifiResources/res/''"

definition OVERLAY_FILE :: string where
  "OVERLAY_FILE = BASE_DIR @ ''values/overlayable.xml''"

definition CONFIG_FILE :: string where
  "CONFIG_FILE = BASE_DIR @ ''values/config.xml''"

definition STRING_FILE :: string where
  "STRING_FILE = BASE_DIR @ ''values/strings.xml''"

definition STYLES_FILE :: string where
  "STYLES_FILE = BASE_DIR @ ''values/styles.xml''"

definition DRAWABLE_DIR :: string where
  "DRAWABLE_DIR = BASE_DIR @ ''drawable/''"

definition LAYOUT_DIR :: string where
  "LAYOUT_DIR = BASE_DIR @ ''layout/''"

fun wifi_get_changed_resource_file :: "string list \<Rightarrow> string option" where
  "wifi_get_changed_resource_file [] = None"
| "wifi_get_changed_resource_file (commit_file # commit_files) =
     (if commit_file = STRING_FILE then Some STRING_FILE
      else if commit_file = CONFIG_FILE then Some commit_file
      else if commit_file = STYLES_FILE then Some commit_file
      else if startswith commit_file DRAWABLE_DIR then Some commit_file
      else if startswith commit_file LAYOUT_DIR then Some commit_file
      else wifi_get_changed_resource_file commit_files)"

fun is_commit_msg_has_translation_bug_id_loop :: "string list \<Rightarrow> bool" where
  "is_commit_msg_has_translation_bug_id_loop [] = False"
| "is_commit_msg_has_translation_bug_id_loop (line # rest) =
     (if startswith (py_lower (py_strip line)) ''bug: 294871353'' then True
      else is_commit_msg_has_translation_bug_id_loop rest)"

definition is_commit_msg_has_translation_bug_id :: "string \<Rightarrow> bool" where
  "is_commit_msg_has_translation_bug_id commit_msg =
     is_commit_msg_has_translation_bug_id_loop (str_splitlines commit_msg)"

definition wifi_main :: "string \<Rightarrow> string \<Rightarrow> string list \<Rightarrow> int \<times> string list" where
  "wifi_main git_branch_vv commit_msg commit_files =
     (if is_in_aosp git_branch_vv then (0, [])
      else
        (case wifi_get_changed_resource_file commit_files of
           None \<Rightarrow> (0, [])
         | Some changed_file \<Rightarrow>
             if changed_file = [] then (0, [])
             else if changed_file = STRING_FILE
                     \<and> \<not> is_commit_msg_has_translation_bug_id commit_msg
               then (1, translation_guidance changed_file)
             else if is_commit_msg_valid commit_msg then (0, [])
             else (1, overlayable_guidance changed_file OVERLAY_FILE)))"

section \<open>Auxiliary facts\<close>

lemma startswith_prefix: "startswith s p = prefix p s"
  by (induction s p rule: startswith.induct) auto

lemma is_commit_msg_valid_loop_iff:
  "is_commit_msg_valid_loop ls =
     (\<exists>l \<in> set ls. prefix ''updated-overlayable'' (py_lower (py_strip l)))"
  by (induction ls) (simp_all add: startswith_prefix)

lemma bug_id_loop_iff:
  "is_commit_msg_has_translation_bug_id_loop ls =
     (\<exists>l \<in> set ls. prefix ''bug: 294871353'' (py_lower (py_strip l)))"
  by (induction ls) (simp_all add: startswith_prefix)

text \<open>Both classifiers return the first changed path that is a tracked file or lies in a
  tracked directory.\<close>

lemma ov_get_changed_resource_file_find:
  "ov_get_changed_resource_file base fs =
     find (\<lambda>p. p = base @ ''values/config.xml'' \<or> p = base @ ''values/strings.xml''
              \<or> p = base @ ''values/styles.xml'' \<or> prefix (base @ ''drawable/'') p
              \<or> prefix (base @ ''layout/'') p) fs"
  by (induction fs) (simp_all add: startswith_prefix)

lemma wifi_get_changed_resource_file_find:
  "wifi_get_changed_resource_file fs =
     find (\<lambda>p. p = STRING_FILE \<or> p = CONFIG_FILE \<or> p = STYLES_FILE
              \<or> prefix DRAWABLE_DIR p \<or> prefix LAYOUT_DIR p) fs"
  by (induction fs) (simp_all add: startswith_prefix)

lemma STRING_FILE_nonempty: "STRING_FILE \<noteq> []"
  by (simp add: STRING_FILE_def BASE_DIR_def)

lemma wifi_resource_files_nonempty:
  "CONFIG_FILE \<noteq> []" "CONFIG_FILE \<noteq> STRING_FILE"
  by (simp_all add: CONFIG_FILE_def STRING_FILE_def BASE_DIR_def)

text \<open>Each hook either returns 0 and prints nothing, or returns 1 and prints guidance.\<close>

lemma ov_main_cases:
  "ov_main g msg files = (0, [])
     \<or> fst (ov_main g msg files) = 1 \<and> snd (ov_main g msg files) \<noteq> []"
  by (simp add: ov_main_def Let_def overlayable_guidance_def split: option.split)

lemma wifi_main_cases:
  "wifi_main g msg files = (0, [])
     \<or> fst (wifi_main g msg files) = 1 \<and> snd (wifi_main g msg files) \<noteq> []"
  by (simp add: wifi_main_def overlayable_guidance_def translation_guidance_def
      split: option.split)

section \<open>The two rules on the strings file\<close>

text \<open>
  Claim C1. In \<^verbatim>\<open>wifi_upload_hook.py\<close>, outside AOSP, when the classification of the
  changed files yields the strings file, the hook exits with 0 exactly when the message
  carries both the bug-id line and the acknowledgment line. The bug-id check comes first:
  without the bug-id line the hook exits with 1 and prints the bug-id guidance, whether the
  acknowledgment line is there or not.
\<close>

theorem strings_file_needs_both_markers:
  assumes "\<not> is_in_aosp g"
    and "wifi_get_changed_resource_file files = Some STRING_FILE"
  shows "(fst (wifi_main g msg files) = 0 \<longleftrightarrow>
            is_commit_msg_has_translation_bug_id msg \<and> is_commit_msg_valid msg)
       \<and> (fst (wifi_main g msg files) = 0 \<or> fst (wifi_main g msg files) = 1)
       \<and> (\<not> is_commit_msg_has_translation_bug_id msg \<longrightarrow>
            wifi_main g msg files = (1, translation_guidance STRING_FILE))"
  using assms by (simp add: wifi_main_def STRING_FILE_nonempty)

theorem strings_file_needs_both_markers_witness:
  "\<not> is_in_aosp ''* work 1a2b3c4 [goog/main] wip''
   \<and> wifi_get_changed_resource_file [STRING_FILE] = Some STRING_FILE
   \<and> is_commit_msg_valid ''Updated-Overlayable: TRUE''
   \<and> wifi_main ''* work 1a2b3c4 [goog/main] wip'' ''Updated-Overlayable: TRUE'' [STRING_FILE]
       = (1, translation_guidance STRING_FILE)"
proof -
  have g: "\<not> is_in_aosp ''* work 1a2b3c4 [goog/main] wip''" by code_simp
  have f: "wifi_get_changed_resource_file [STRING_FILE] = Some STRING_FILE" by simp
  have v: "is_commit_msg_valid ''Updated-Overlayable: TRUE''" by code_simp
  have b: "\<not> is_commit_msg_has_translation_bug_id ''Updated-Overlayable: TRUE''" by code_simp
  from strings_file_needs_both_markers [OF g f, of "''Updated-Overlayable: TRUE''"] g f v b
  show ?thesis by simp
qed

section \<open>The marker scanner\<close>

text \<open>
  Claim C2. Each scanner returns true exactly when some line of the message (as cut by
  \<^verbatim>\<open>splitlines\<close>), stripped of surrounding whitespace and lower-cased, starts with the
  lower-cased marker. So text after the marker on its line is allowed, the case of the
  line does not matter, and a marker that is not at the stripped start of a line does not
  count. The literals the code tests are the lower-cased forms of the markers it prints.
\<close>

theorem marker_scanner_is_line_prefix_test:
  "(is_commit_msg_valid msg \<longleftrightarrow>
      (\<exists>line \<in> set (str_splitlines msg).
         prefix ''updated-overlayable'' (py_lower (py_strip line))))
   \<and> (is_commit_msg_has_translation_bug_id msg \<longleftrightarrow>
      (\<exists>line \<in> set (str_splitlines msg).
         prefix ''bug: 294871353'' (py_lower (py_strip line))))
   \<and> py_lower ''Updated-Overlayable'' = ''updated-overlayable''
   \<and> py_lower ''Bug: 294871353'' = ''bug: 294871353''"
proof -
  have "py_lower ''Updated-Overlayable'' = ''updated-overlayable''" by code_simp
  moreover have "py_lower ''Bug: 294871353'' = ''bug: 294871353''" by code_simp
  ultimately show ?thesis
    by (simp only: is_commit_msg_valid_def is_commit_msg_has_translation_bug_id_def
        is_commit_msg_valid_loop_iff bug_id_loop_iff simp_thms)
qed

theorem marker_scanner_is_line_prefix_test_witness:
  "(\<exists>line \<in> set (str_splitlines
        (''fix'' @ [CHR 0x0A] @ ''  UPDATED-OVERLAYABLE: true, see docs '')).
      prefix ''updated-overlayable'' (py_lower (py_strip line)))
   \<and> \<not> (\<exists>line \<in> set (str_splitlines ''see Updated-Overlayable docs'').
      prefix ''updated-overlayable'' (py_lower (py_strip line)))"
proof -
  have a: "is_commit_msg_valid (''fix'' @ [CHR 0x0A] @ ''  UPDATED-OVERLAYABLE: true, see docs '')"
    by code_simp
  have b: "\<not> is_commit_msg_valid ''see Updated-Overlayable docs''"
    by code_simp
  from a b
    marker_scanner_is_line_prefix_test
      [of "''fix'' @ [CHR 0x0A] @ ''  UPDATED-OVERLAYABLE: true, see docs ''"]
    marker_scanner_is_line_prefix_test [of "''see Updated-Overlayable docs''"]
  show ?thesis by blast
qed

section \<open>The AOSP bypass\<close>

text \<open>
  Claim C3. When \<^verbatim>\<open>is_in_aosp()\<close> is true, both hooks return 0 and print nothing, for every
  message and every list of changed files: neither is looked at.
\<close>

theorem aosp_branch_is_always_allowed:
  assumes "is_in_aosp g"
  shows "ov_main g msg files = (0, []) \<and> wifi_main g msg files = (0, [])"
  using assms by (simp add: ov_main_def wifi_main_def)

theorem aosp_branch_is_always_allowed_witness:
  "is_in_aosp ''* main 1a2b3c4 [aosp/main] tip''
   \<and> ov_main ''* main 1a2b3c4 [aosp/main] tip'' [] [STRING_FILE, CONFIG_FILE] = (0, [])
   \<and> wifi_main ''* main 1a2b3c4 [aosp/main] tip'' [] [STRING_FILE, CONFIG_FILE] = (0, [])"
proof -
  have g: "is_in_aosp ''* main 1a2b3c4 [aosp/main] tip''" by code_simp
  from g aosp_branch_is_always_allowed [OF g, of "[]" "[STRING_FILE, CONFIG_FILE]"]
  show ?thesis by simp
qed

section \<open>Changes outside the tracked resources\<close>

text \<open>
  Claim C4. Outside AOSP, when no changed path is one of the three tracked files and none
  starts with one of the two tracked directories, both hooks return 0 and print nothing,
  whatever the message says.
\<close>

theorem untracked_changes_are_allowed:
  assumes "\<not> is_in_aosp g"
    and "\<forall>p \<in> set files. p \<notin> {CONFIG_FILE, STRING_FILE, STYLES_FILE}
           \<and> \<not> prefix DRAWABLE_DIR p \<and> \<not> prefix LAYOUT_DIR p"
  shows "ov_main g msg files = (0, []) \<and> wifi_main g msg files = (0, [])"
proof -
  from assms(2) have w: "wifi_get_changed_resource_file files = None"
    by (simp add: wifi_get_changed_resource_file_find find_None_iff)
  from assms(2)
  have o: "ov_get_changed_resource_file ''service/ServiceWifiResources/res/'' files = None"
    unfolding ov_get_changed_resource_file_find find_None_iff
    by (simp add: CONFIG_FILE_def STRING_FILE_def STYLES_FILE_def DRAWABLE_DIR_def
        LAYOUT_DIR_def BASE_DIR_def)
  from assms(1) w o show ?thesis by (simp add: ov_main_def wifi_main_def)
qed

theorem untracked_changes_are_allowed_witness:
  "\<not> is_in_aosp ''* work 1a2b3c4 [goog/main] wip''
   \<and> ov_main ''* work 1a2b3c4 [goog/main] wip'' ''no marker here''
        [''README.md'', ''service/ServiceWifiResources/res/values/overlayable.xml'',
         ''service/ServiceWifiResources/res/values-fr/strings.xml''] = (0, [])
   \<and> wifi_main ''* work 1a2b3c4 [goog/main] wip'' ''no marker here''
        [''README.md'', ''service/ServiceWifiResources/res/values/overlayable.xml'',
         ''service/ServiceWifiResources/res/values-fr/strings.xml''] = (0, [])"
proof -
  have g: "\<not> is_in_aosp ''* work 1a2b3c4 [goog/main] wip''" by code_simp
  have f: "\<forall>p \<in> set [''README.md'',
         ''service/ServiceWifiResources/res/values/overlayable.xml'',
         ''service/ServiceWifiResources/res/values-fr/strings.xml''].
       p \<notin> {CONFIG_FILE, STRING_FILE, STYLES_FILE}
           \<and> \<not> prefix DRAWABLE_DIR p \<and> \<not> prefix LAYOUT_DIR p"
    by code_simp
  from g untracked_changes_are_allowed [OF g f, of "''no marker here''"]
  show ?thesis by simp
qed

section \<open>A change of the configuration file\<close>

text \<open>
  Claim C5. Outside AOSP, with \<^verbatim>\<open>values/config.xml\<close> as the only changed file, both hooks
  return 1 and print the acknowledgment guidance (and nothing else) for the message
  \<^verbatim>\<open>fix default\<close>, and return 0 once the message has the further line
  \<^verbatim>\<open>Updated-Overlayable: TRUE\<close>.
\<close>

theorem config_change_scenarios:
  assumes "\<not> is_in_aosp g"
  shows "ov_main g ''fix default'' [CONFIG_FILE]
        = (1, overlayable_guidance CONFIG_FILE OVERLAY_FILE)
    \<and> wifi_main g ''fix default'' [CONFIG_FILE]
        = (1, overlayable_guidance CONFIG_FILE OVERLAY_FILE)
    \<and> ov_main g (''fix default'' @ [CHR 0x0A] @ ''Updated-Overlayable: TRUE'') [CONFIG_FILE]
        = (0, [])
    \<and> wifi_main g (''fix default'' @ [CHR 0x0A] @ ''Updated-Overlayable: TRUE'') [CONFIG_FILE]
        = (0, [])"
proof -
  have a: "\<not> is_commit_msg_valid ''fix default''" by code_simp
  have b: "is_commit_msg_valid (''fix default'' @ [CHR 0x0A] @ ''Updated-Overlayable: TRUE'')"
    by code_simp
  have o: "ov_get_changed_resource_file ''service/ServiceWifiResources/res/'' [CONFIG_FILE]
             = Some CONFIG_FILE"
    by (simp add: CONFIG_FILE_def BASE_DIR_def)
  have w: "wifi_get_changed_resource_file [CONFIG_FILE] = Some CONFIG_FILE"
    by (simp add: wifi_resource_files_nonempty)
  have v: "''service/ServiceWifiResources/res/'' @ ''values/overlayable.xml'' = OVERLAY_FILE"
    by (simp add: OVERLAY_FILE_def BASE_DIR_def)
  from assms a b o w show ?thesis
    unfolding ov_main_def wifi_main_def Let_def v
    by (simp add: wifi_resource_files_nonempty)
qed

theorem config_change_scenarios_witness:
  "\<not> is_in_aosp ''* work 1a2b3c4 [goog/main] wip''
   \<and> fst (ov_main ''* work 1a2b3c4 [goog/main] wip'' ''fix default'' [CONFIG_FILE]) = 1
   \<and> hd (snd (wifi_main ''* work 1a2b3c4 [goog/main] wip'' ''fix default'' [CONFIG_FILE]))
       = ''This commit has changed: '' @ [dquote]
           @ ''service/ServiceWifiResources/res/values/config.xml'' @ [dquote] @ ''.''
   \<and> wifi_main ''* work 1a2b3c4 [goog/main] wip''
        (''fix default'' @ [CHR 0x0A] @ ''Updated-Overlayable: TRUE'') [CONFIG_FILE] = (0, [])"
proof -
  have g: "\<not> is_in_aosp ''* work 1a2b3c4 [goog/main] wip''" by code_simp
  have h: "hd (overlayable_guidance CONFIG_FILE OVERLAY_FILE)
       = ''This commit has changed: '' @ [dquote]
           @ ''service/ServiceWifiResources/res/values/config.xml'' @ [dquote] @ ''.''"
    by (simp add: overlayable_guidance_def CONFIG_FILE_def BASE_DIR_def)
  from g h config_change_scenarios [OF g] show ?thesis by simp
qed

section \<open>The strings file behind another tracked file\<close>

text \<open>
  Claim C6 says that in \<^verbatim>\<open>wifi_upload_hook.py\<close> the bug-id rule is evaluated whenever the
  strings file is among the changed paths, wherever it stands in the list. The classifier
  returns at the first tracked path, and \<^verbatim>\<open>main\<close> compares only that path with the strings
  file: outside AOSP, with \<^verbatim>\<open>values/config.xml\<close> listed before \<^verbatim>\<open>values/strings.xml\<close> and a
  message that has the acknowledgment line but no bug-id line, the hook returns 0 and
  prints nothing; with the same two files in the other order it returns 1 and asks for the
  bug-id line.
\<close>

theorem bug_id_rule_skipped_behind_earlier_tracked_file:
  "\<not> is_in_aosp ''* work 1a2b3c4 [goog/main] wip''
   \<and> STRING_FILE \<in> set [CONFIG_FILE, STRING_FILE]
   \<and> \<not> is_commit_msg_has_translation_bug_id ''Updated-Overlayable: TRUE''
   \<and> wifi_get_changed_resource_file [CONFIG_FILE, STRING_FILE] = Some CONFIG_FILE
   \<and> wifi_main ''* work 1a2b3c4 [goog/main] wip'' ''Updated-Overlayable: TRUE''
        [CONFIG_FILE, STRING_FILE] = (0, [])
   \<and> wifi_main ''* work 1a2b3c4 [goog/main] wip'' ''Updated-Overlayable: TRUE''
        [STRING_FILE, CONFIG_FILE] = (1, translation_guidance STRING_FILE)"
  by code_simp

section \<open>Exit status\<close>

text \<open>
  Claim C7. For every input each hook returns 0 or 1 and nothing else; it returns 0
  exactly when it prints no guidance (the change is allowed) and 1 exactly when it prints
  some (the change is blocked).
\<close>

theorem exit_status_is_zero_or_one:
  "(fst (ov_main g msg files) = 0 \<or> fst (ov_main g msg files) = 1)
   \<and> (fst (wifi_main g msg files) = 0 \<or> fst (wifi_main g msg files) = 1)
   \<and> (fst (ov_main g msg files) = 0 \<longleftrightarrow> snd (ov_main g msg files) = [])
   \<and> (fst (wifi_main g msg files) = 0 \<longleftrightarrow> snd (wifi_main g msg files) = [])"
  using ov_main_cases [of g msg files] wifi_main_cases [of g msg files] by auto

theorem exit_status_is_zero_or_one_witness:
  "fst (ov_main ''* work 1a2b3c4 [goog/main] wip'' ''tidy'' [STYLES_FILE]) = 1
   \<and> fst (wifi_main [] ''tidy'' [STYLES_FILE]) = 0"
proof -
  have a: "snd (ov_main ''* work 1a2b3c4 [goog/main] wip'' ''tidy'' [STYLES_FILE]) \<noteq> []"
    by code_simp
  have b: "snd (wifi_main [] ''tidy'' [STYLES_FILE]) = []"
    by code_simp
  from a b
    exit_status_is_zero_or_one [of "''* work 1a2b3c4 [goog/main] wip''" "''tidy''" "[STYLES_FILE]"]
    exit_status_is_zero_or_one [of "[]" "''tidy''" "[STYLES_FILE]"]
  show ?thesis by blast
qed

section \<open>The path classifier\<close>

text \<open>
  Claim C8. Both classifiers return the first changed path that equals one of the three
  tracked files or has one of the two tracked directories as a prefix (the tests on one
  path exclude one another, so their order does not show). Hence, outside AOSP and with
  no acknowledgment line in the message, the single changed path
  \<^verbatim>\<open>drawable/icon.png\<close> under the base directory makes both hooks return 1 with the
  acknowledgment guidance naming that path.
\<close>

theorem classifier_first_tracked_path:
  assumes "\<not> is_in_aosp g" and "\<not> is_commit_msg_valid msg"
  shows "ov_get_changed_resource_file BASE_DIR files =
           find (\<lambda>p. p \<in> {CONFIG_FILE, STRING_FILE, STYLES_FILE}
                   \<or> prefix DRAWABLE_DIR p \<or> prefix LAYOUT_DIR p) files
    \<and> wifi_get_changed_resource_file files =
           find (\<lambda>p. p \<in> {CONFIG_FILE, STRING_FILE, STYLES_FILE}
                   \<or> prefix DRAWABLE_DIR p \<or> prefix LAYOUT_DIR p) files
    \<and> ov_main g msg [DRAWABLE_DIR @ ''icon.png'']
        = (1, overlayable_guidance (DRAWABLE_DIR @ ''icon.png'') OVERLAY_FILE)
    \<and> wifi_main g msg [DRAWABLE_DIR @ ''icon.png'']
        = (1, overlayable_guidance (DRAWABLE_DIR @ ''icon.png'') OVERLAY_FILE)"
proof -
  let ?tracked = "\<lambda>p. p \<in> {CONFIG_FILE, STRING_FILE, STYLES_FILE}
                   \<or> prefix DRAWABLE_DIR p \<or> prefix LAYOUT_DIR p"
  have 1: "ov_get_changed_resource_file BASE_DIR fs = find ?tracked fs" for fs
    unfolding ov_get_changed_resource_file_find
    by (rule find_cong)
      (auto simp add: CONFIG_FILE_def STRING_FILE_def STYLES_FILE_def DRAWABLE_DIR_def
        LAYOUT_DIR_def)
  have 2: "wifi_get_changed_resource_file fs = find ?tracked fs" for fs
    unfolding wifi_get_changed_resource_file_find
    by (rule find_cong) auto
  have d: "?tracked (DRAWABLE_DIR @ ''icon.png'')" by simp
  have n: "DRAWABLE_DIR @ ''icon.png'' \<noteq> STRING_FILE" "DRAWABLE_DIR @ ''icon.png'' \<noteq> []"
    by (simp_all add: DRAWABLE_DIR_def STRING_FILE_def BASE_DIR_def)
  have 3: "ov_main g msg [DRAWABLE_DIR @ ''icon.png'']
        = (1, overlayable_guidance (DRAWABLE_DIR @ ''icon.png'') OVERLAY_FILE)"
    using assms
    by (simp add: ov_main_def OVERLAY_FILE_def DRAWABLE_DIR_def BASE_DIR_def)
  have 4: "wifi_main g msg [DRAWABLE_DIR @ ''icon.png'']
        = (1, overlayable_guidance (DRAWABLE_DIR @ ''icon.png'') OVERLAY_FILE)"
    using assms 2 [of "[DRAWABLE_DIR @ ''icon.png'']"] d n
    unfolding wifi_main_def
    by simp
  from 1 [of files] 2 [of files] 3 4 show ?thesis by blast
qed

theorem classifier_first_tracked_path_witness:
  "\<not> is_in_aosp ''* work 1a2b3c4 [goog/main] wip''
   \<and> \<not> is_commit_msg_valid ''new icon''
   \<and> wifi_get_changed_resource_file [''Android.bp'', LAYOUT_DIR @ ''dialog.xml'', STRING_FILE]
        = Some (LAYOUT_DIR @ ''dialog.xml'')
   \<and> fst (ov_main ''* work 1a2b3c4 [goog/main] wip'' ''new icon''
         [DRAWABLE_DIR @ ''icon.png'']) = 1
   \<and> hd (snd (wifi_main ''* work 1a2b3c4 [goog/main] wip'' ''new icon''
         [DRAWABLE_DIR @ ''icon.png'']))
       = ''This commit has changed: '' @ [dquote]
           @ ''service/ServiceWifiResources/res/drawable/icon.png'' @ [dquote] @ ''.''"
proof -
  have g: "\<not> is_in_aosp ''* work 1a2b3c4 [goog/main] wip''" by code_simp
  have m: "\<not> is_commit_msg_valid ''new icon''" by code_simp
  have f: "find (\<lambda>p. p \<in> {CONFIG_FILE, STRING_FILE, STYLES_FILE}
                   \<or> prefix DRAWABLE_DIR p \<or> prefix LAYOUT_DIR p)
             [''Android.bp'', LAYOUT_DIR @ ''dialog.xml'', STRING_FILE]
           = Some (LAYOUT_DIR @ ''dialog.xml'')"
    by code_simp
  have h: "hd (overlayable_guidance (DRAWABLE_DIR @ ''icon.png'') OVERLAY_FILE)
       = ''This commit has changed: '' @ [dquote]
           @ ''service/ServiceWifiResources/res/drawable/icon.png'' @ [dquote] @ ''.''"
    by (simp add: overlayable_guidance_def DRAWABLE_DIR_def BASE_DIR_def)
  from g m f h
    classifier_first_tracked_path
      [OF g m, of "[''Android.bp'', LAYOUT_DIR @ ''dialog.xml'', STRING_FILE]"]
  show ?thesis by simp
qed

section \<open>The bug-id rule is a prefix test\<close>

text \<open>
  Claim C10. Any line that, stripped and lower-cased, begins with \<^verbatim>\<open>bug: 294871353\<close>
  satisfies the bug-id rule, whatever follows on the line. A longer number that extends
  those digits, as in \<^verbatim>\<open>Bug: 2948713530\<close>, is therefore accepted.
\<close>

theorem bug_id_rule_accepts_any_continuation:
  assumes "line \<in> set (str_splitlines msg)"
    and "prefix ''bug: 294871353'' (py_lower (py_strip line))"
  shows "is_commit_msg_has_translation_bug_id msg"
  using assms unfolding is_commit_msg_has_translation_bug_id_def bug_id_loop_iff by blast

theorem bug_id_rule_accepts_any_continuation_witness:
  "''Bug: 2948713530'' \<in> set (str_splitlines (''l10n'' @ [CHR 0x0A] @ ''Bug: 2948713530''))
   \<and> py_lower (py_strip ''Bug: 2948713530'') = ''bug: 294871353'' @ ''0''
   \<and> is_commit_msg_has_translation_bug_id (''l10n'' @ [CHR 0x0A] @ ''Bug: 2948713530'')
   \<and> wifi_main ''* work 1a2b3c4 [goog/main] wip''
        (''l10n'' @ [CHR 0x0A] @ ''Bug: 2948713530'' @ [CHR 0x0A] @ ''Updated-Overlayable: TRUE'')
        [STRING_FILE] = (0, [])"
proof -
  have l: "''Bug: 2948713530''
             \<in> set (str_splitlines (''l10n'' @ [CHR 0x0A] @ ''Bug: 2948713530''))"
    by code_simp
  have e: "py_lower (py_strip ''Bug: 2948713530'') = ''bug: 294871353'' @ ''0''"
    by code_simp
  have p: "prefix ''bug: 294871353'' (py_lower (py_strip ''Bug: 2948713530''))"
    unfolding e by simp
  have w: "wifi_main ''* work 1a2b3c4 [goog/main] wip''
        (''l10n'' @ [CHR 0x0A] @ ''Bug: 2948713530'' @ [CHR 0x0A] @ ''Updated-Overlayable: TRUE'')
        [STRING_FILE] = (0, [])"
    by code_simp
  from l e w bug_id_rule_accepts_any_continuation [OF l p] show ?thesis by simp
qed

end
